theory Spec2Isabelle
  imports Main
begin

section \<open>The IP reverser of app.py\<close>

text \<open>
  The module has two functions with logic, \<open>get_client_ip\<close> and \<open>reverse_ip\<close>, and three
  Flask route handlers that compose them. Python strings are modelled as \<open>string\<close>; a
  header value reaches the application decoded as Latin-1, one character per byte. A
  value that may be \<open>None\<close> is a \<open>string option\<close>. A raised exception is the \<open>Inl\<close> side
  of a sum, and the lines written to the logger are returned next to the result, in the
  order they are emitted.
\<close>

subsection \<open>Exceptions and the logger\<close>

datatype py_error =
    AttributeError string
  | IndexError string
  | KeyboardInterrupt

text \<open>\<open>except Exception\<close> catches the instances of \<open>Exception\<close>; \<open>KeyboardInterrupt\<close>
  derives from \<open>BaseException\<close> only and passes through such a clause.\<close>

fun is_Exception :: "py_error \<Rightarrow> bool" where
  "is_Exception (AttributeError m) = True"
| "is_Exception (IndexError m) = True"
| "is_Exception KeyboardInterrupt = False"

text \<open>\<open>str(e)\<close>: the message of the exception.\<close>

fun py_str :: "py_error \<Rightarrow> string" where
  "py_str (AttributeError m) = m"
| "py_str (IndexError m) = m"
| "py_str KeyboardInterrupt = []"

datatype level = INFO | ERROR

type_synonym log_line = "level \<times> string"

subsection \<open>The string methods the module calls\<close>

text \<open>\<open>s.split(sep)\<close> for a separator of one character: every occurrence of the
  separator ends a segment, so the result has one more element than \<open>s\<close> has separators
  and is never empty; \<open>''.split('.')\<close> is \<open>['']\<close>.\<close>

fun py_split :: "char \<Rightarrow> string \<Rightarrow> string list" where
  "py_split sep [] = [[]]"
| "py_split sep (c # cs) =
     (if c = sep then [] # py_split sep cs
      else (case py_split sep cs of
              [] \<Rightarrow> [[c]]
            | w # ws \<Rightarrow> (c # w) # ws))"

text \<open>\<open>sep.join(xs)\<close>.\<close>

fun py_join :: "string \<Rightarrow> string list \<Rightarrow> string" where
  "py_join sep [] = []"
| "py_join sep [x] = x"
| "py_join sep (x # y # ys) = x @ sep @ py_join sep (y # ys)"

text \<open>\<open>str.isspace\<close> on one character, for the code points below 256: the ASCII
  whitespace and separators, NEL and the no-break space.\<close>

definition py_isspace :: "char \<Rightarrow> bool" where
  "py_isspace c =
     (c \<in> set [CHR 0x09, CHR 0x0A, CHR 0x0B, CHR 0x0C, CHR 0x0D,
                CHR 0x1C, CHR 0x1D, CHR 0x1E, CHR 0x1F, CHR 0x20,
                CHR 0x85, CHR 0xA0])"

text \<open>\<open>s.strip()\<close>: leading and trailing whitespace removed.\<close>

definition py_strip :: "string \<Rightarrow> string" where
  "py_strip s = rev (dropWhile py_isspace (rev (dropWhile py_isspace s)))"

text \<open>\<open>xs[i]\<close> for an index that is not negative; out of range it raises.\<close>

definition py_getitem :: "'a list \<Rightarrow> nat \<Rightarrow> py_error + 'a" where
  "py_getitem xs i =
     (if i < length xs then Inr (xs ! i)
      else Inl (IndexError ''list index out of range''))"

text \<open>How an f-string renders a value that is a string or \<open>None\<close>.\<close>

fun py_format :: "string option \<Rightarrow> string" where
  "py_format None = ''None''"
| "py_format (Some s) = s"

subsection \<open>reverse_ip\<close>

text \<open>The message of the \<open>AttributeError\<close> that a method call on \<open>None\<close> raises;
  \<open>CHR 0x27\<close> is the single quote around the two names.\<close>

definition NoneType_has_no_split :: string where
  "NoneType_has_no_split =
     CHR 0x27 # ''NoneType'' @ CHR 0x27 # '' object has no attribute '' @
     CHR 0x27 # ''split'' @ [CHR 0x27]"

text \<open>The body of the \<open>try\<close> block. \<open>None\<close> has no method \<open>split\<close>, so the first
  statement raises \<open>AttributeError\<close> there.\<close>

definition reverse_ip_try :: "string option \<Rightarrow> py_error + string" where
  "reverse_ip_try ip_address =
     (case ip_address of
        None \<Rightarrow> Inl (AttributeError NoneType_has_no_split)
      | Some s \<Rightarrow>
          (let segments = py_split (CHR ''.'') s in
           if length segments = 4 then
             (let reversed_segments = rev segments
              in Inr (py_join ''.'' reversed_segments))
           else Inr (''Invalid IP format: '' @ py_format ip_address)))"

text \<open>The function: the \<open>try\<close> block under its \<open>except Exception\<close> clause.\<close>

definition reverse_ip :: "string option \<Rightarrow> (py_error + string) \<times> log_line list" where
  "reverse_ip ip_address =
     (case reverse_ip_try ip_address of
        Inr r \<Rightarrow> (Inr r, [])
      | Inl e \<Rightarrow>
          if is_Exception e then
            (Inr (''Error processing IP: '' @ py_format ip_address),
             [(ERROR, ''Error reversing IP '' @ py_format ip_address @ '': '' @ py_str e)])
          else (Inl e, []))"

subsection \<open>The request and get_client_ip\<close>

text \<open>What the module reads of Flask's request object: \<open>headers\<close> is
  \<open>request.headers.get\<close>, Werkzeug's lookup by header name, which gives \<open>None\<close> for a
  header the request does not carry; \<open>remote_addr\<close> is \<open>None\<close> when the server passes no
  peer address.\<close>

record request =
  headers :: "string \<Rightarrow> string option"
  remote_addr :: "string option"
  http_method :: string
  path :: string

definition headers_to_check :: "string list" where
  "headers_to_check =
     [''X-Forwarded-For'', ''X-Real-IP'', ''X-Forwarded'', ''X-Cluster-Client-IP'',
      ''CF-Connecting-IP'']"

text \<open>The \<open>for\<close> loop over the remaining header names. \<open>Some r\<close> is a \<open>return\<close> (or an
  exception) inside the loop, \<open>None\<close> is the loop running to its end. \<open>if ip:\<close> is false
  for \<open>None\<close> and for the empty string.\<close>

fun get_client_ip_loop ::
  "request \<Rightarrow> string list \<Rightarrow> ((py_error + string option) \<times> log_line list) option" where
  "get_client_ip_loop req [] = None"
| "get_client_ip_loop req (header # rest) =
     (case headers req header of
        None \<Rightarrow> get_client_ip_loop req rest
      | Some ip \<Rightarrow>
          if ip = [] then get_client_ip_loop req rest
          else if CHR '','' \<in> set ip then
            (case py_getitem (py_split (CHR '','') ip) 0 of
               Inl e \<Rightarrow> Some (Inl e, [])
             | Inr first \<Rightarrow>
                 (let ip' = py_strip first
                  in Some (Inr (Some ip'),
                           [(INFO, ''Found IP in '' @ header @ '': '' @ ip')])))
          else Some (Inr (Some ip), [(INFO, ''Found IP in '' @ header @ '': '' @ ip)]))"

definition get_client_ip :: "request \<Rightarrow> (py_error + string option) \<times> log_line list" where
  "get_client_ip req =
     (case get_client_ip_loop req headers_to_check of
        Some r \<Rightarrow> r
      | None \<Rightarrow>
          (let ip = remote_addr req
           in (Inr ip, [(INFO, ''Using remote_addr: '' @ py_format ip)])))"

subsection \<open>The route handlers\<close>

datatype json = JNull | JString string | JObject "(string \<times> json) list"

fun json_of :: "string option \<Rightarrow> json" where
  "json_of None = JNull"
| "json_of (Some s) = JString s"

text \<open>\<open>jsonify\<close> of a dictionary: the response body, with the entries in the order the
  source writes them.\<close>

definition jsonify :: "(string \<times> json) list \<Rightarrow> json" where
  "jsonify d = JObject d"

text \<open>\<open>request.headers.get('User-Agent', 'Unknown')\<close>.\<close>

definition user_agent :: "request \<Rightarrow> string" where
  "user_agent req = (case headers req ''User-Agent'' of None \<Rightarrow> ''Unknown'' | Some v \<Rightarrow> v)"

text \<open>A handler returns the body and the status, or raises; an exception that leaves
  a handler is what Flask answers with status 500.\<close>

type_synonym handler_result = "(py_error + json \<times> nat) \<times> log_line list"

definition handle_request :: "request \<Rightarrow> handler_result" where
  "handle_request req =
     (case get_client_ip req of
        (Inl e, lg) \<Rightarrow> (Inl e, lg)
      | (Inr client_ip, lg) \<Rightarrow>
          (case reverse_ip client_ip of
             (Inl e, lg') \<Rightarrow> (Inl e, lg @ lg')
           | (Inr reversed_ip, lg') \<Rightarrow>
               (let response_data =
                      [(''original_ip'', json_of client_ip),
                       (''reversed_ip'', JString reversed_ip),
                       (''method'', JString (http_method req)),
                       (''path'', JString (path req)),
                       (''user_agent'', JString (user_agent req))]
                in (Inr (jsonify response_data, 200),
                    lg @ lg' @
                    [(INFO, ''Request from '' @ py_format client_ip @
                            '' -> Reversed: '' @ reversed_ip)]))))"

definition health_check :: handler_result where
  "health_check =
     (Inr (jsonify [(''status'', JString ''healthy''),
                    (''service'', JString ''ip-reverse-app'')], 200), [])"

text \<open>\<open>catch_all(path)\<close>: \<open>p\<close> is the part of the URL the route's converter matched.\<close>

definition catch_all :: "request \<Rightarrow> string \<Rightarrow> handler_result" where
  "catch_all req p =
     (case get_client_ip req of
        (Inl e, lg) \<Rightarrow> (Inl e, lg)
      | (Inr client_ip, lg) \<Rightarrow>
          (case reverse_ip client_ip of
             (Inl e, lg') \<Rightarrow> (Inl e, lg @ lg')
           | (Inr reversed_ip, lg') \<Rightarrow>
               (let response_data =
                      [(''original_ip'', json_of client_ip),
                       (''reversed_ip'', JString reversed_ip),
                       (''method'', JString (http_method req)),
                       (''path'', JString (''/'' @ p)),
                       (''user_agent'', JString (user_agent req))]
                in (Inr (jsonify response_data, 200),
                    lg @ lg' @
                    [(INFO, ''Request to /'' @ p @ '' from '' @ py_format client_ip @
                            '' -> Reversed: '' @ reversed_ip)]))))"

section \<open>Properties of the string methods\<close>

lemma py_split_not_Nil: "py_split sep s \<noteq> []"
  by (induction s) (auto split: list.splits)

lemma py_split_sep_free: "w \<in> set (py_split sep s) \<Longrightarrow> sep \<notin> set w"
proof (induction s arbitrary: w)
  case Nil
  then show ?case by simp
next
  case (Cons c cs)
  show ?case
  proof (cases "c = sep")
    case True
    with Cons show ?thesis by auto
  next
    case False
    obtain v vs where vs: "py_split sep cs = v # vs"
      using py_split_not_Nil [of sep cs] by (cases "py_split sep cs") auto
    with Cons.prems False have "w = c # v \<or> w \<in> set vs" by auto
    then show ?thesis
    proof
      assume "w = c # v"
      moreover have "sep \<notin> set v" using Cons.IH [of v] vs by simp
      ultimately show ?thesis using False by auto
    next
      assume "w \<in> set vs"
      then show ?thesis using Cons.IH [of w] vs by simp
    qed
  qed
qed

lemma py_join_split: "py_join [sep] (py_split sep s) = s"
proof (induction s)
  case Nil
  then show ?case by simp
next
  case (Cons c cs)
  obtain v vs where vs: "py_split sep cs = v # vs"
    using py_split_not_Nil [of sep cs] by (cases "py_split sep cs") auto
  show ?case
  proof (cases "c = sep")
    case True
    then show ?thesis using Cons.IH vs by simp
  next
    case False
    then show ?thesis using Cons.IH vs by (cases vs) auto
  qed
qed

lemma py_split_append_sep:
  "sep \<notin> set x \<Longrightarrow> py_split sep (x @ sep # s) = x # py_split sep s"
  by (induction x) auto

lemma py_split_sep_free_word: "sep \<notin> set x \<Longrightarrow> py_split sep x = [x]"
  by (induction x) auto

lemma py_split_join:
  "xs \<noteq> [] \<Longrightarrow> (\<And>w. w \<in> set xs \<Longrightarrow> sep \<notin> set w) \<Longrightarrow> py_split sep (py_join [sep] xs) = xs"
proof (induction xs)
  case Nil
  then show ?case by simp
next
  case (Cons x xs)
  show ?case
  proof (cases xs)
    case Nil
    then show ?thesis using Cons.prems by (simp add: py_split_sep_free_word)
  next
    case (Cons y ys)
    then have "py_join [sep] (x # xs) = x @ sep # py_join [sep] xs" by simp
    moreover have "py_split sep (py_join [sep] xs) = xs"
      using Cons.IH Cons.prems Cons by simp
    moreover have "sep \<notin> set x" using Cons.prems by simp
    ultimately show ?thesis by (simp add: py_split_append_sep)
  qed
qed

section \<open>Properties of reverse_ip\<close>

lemma length_four: "length xs = 4 \<Longrightarrow> \<exists>a b c d. xs = [a, b, c, d]"
  by (auto simp: numeral_eq_Suc length_Suc_conv)

lemma reverse_ip_try_Some:
  "reverse_ip_try (Some s) =
     Inr (if length (py_split (CHR ''.'') s) = 4
          then py_join ''.'' (rev (py_split (CHR ''.'') s))
          else ''Invalid IP format: '' @ s)"
  by (simp add: reverse_ip_try_def Let_def)

lemma reverse_ip_Some:
  "reverse_ip (Some s) =
     (Inr (if length (py_split (CHR ''.'') s) = 4
           then py_join ''.'' (rev (py_split (CHR ''.'') s))
           else ''Invalid IP format: '' @ s), [])"
  by (simp add: reverse_ip_def reverse_ip_try_Some)

text \<open>Every string written as four dot-free segments with three dots between them is
  split into exactly those segments, so the hypothesis of the next theorem holds of all
  of them, whatever the segments are.\<close>

lemma four_segments_split:
  assumes "CHR ''.'' \<notin> set a" "CHR ''.'' \<notin> set b" "CHR ''.'' \<notin> set c" "CHR ''.'' \<notin> set d"
  shows "py_split (CHR ''.'') (a @ ''.'' @ b @ ''.'' @ c @ ''.'' @ d) = [a, b, c, d]"
  using assms by (simp add: py_split_append_sep py_split_sep_free_word)

text \<open>C1. When the split of the input on the dot gives exactly four segments \<open>a\<close>,
  \<open>b\<close>, \<open>c\<close>, \<open>d\<close> (any strings, numeric or not), the input is \<open>a.b.c.d\<close> and
  \<open>reverse_ip\<close> returns \<open>d.c.b.a\<close>, logging nothing.\<close>

theorem reverse_ip_four_segments:
  assumes "py_split (CHR ''.'') s = [a, b, c, d]"
  shows "s = a @ ''.'' @ b @ ''.'' @ c @ ''.'' @ d \<and>
         reverse_ip (Some s) = (Inr (d @ ''.'' @ c @ ''.'' @ b @ ''.'' @ a), [])"
proof
  have "py_join ''.'' (py_split (CHR ''.'') s) = s" by (rule py_join_split)
  with assms show "s = a @ ''.'' @ b @ ''.'' @ c @ ''.'' @ d" by simp
  show "reverse_ip (Some s) = (Inr (d @ ''.'' @ c @ ''.'' @ b @ ''.'' @ a), [])"
    using assms by (simp add: reverse_ip_Some)
qed

theorem reverse_ip_four_segments_witness:
  "py_split (CHR ''.'') ''1.2.3.4'' = [''1'', ''2'', ''3'', ''4''] \<and>
   reverse_ip (Some ''1.2.3.4'') = (Inr ''4.3.2.1'', []) \<and>
   py_split (CHR ''.'') ''a.b..d'' = [''a'', ''b'', [], ''d''] \<and>
   reverse_ip (Some ''a.b..d'') = (Inr ''d..b.a'', [])"
proof -
  have h1: "py_split (CHR ''.'') ''1.2.3.4'' = [''1'', ''2'', ''3'', ''4'']" by simp
  have h2: "py_split (CHR ''.'') ''a.b..d'' = [''a'', ''b'', [], ''d'']" by simp
  have r1: "reverse_ip (Some ''1.2.3.4'') =
              (Inr (''4'' @ ''.'' @ ''3'' @ ''.'' @ ''2'' @ ''.'' @ ''1''), [])"
    by (rule reverse_ip_four_segments [OF h1, THEN conjunct2])
  have r2: "reverse_ip (Some ''a.b..d'') =
              (Inr (''d'' @ ''.'' @ [] @ ''.'' @ ''b'' @ ''.'' @ ''a''), [])"
    by (rule reverse_ip_four_segments [OF h2, THEN conjunct2])
  have e1: "''4'' @ ''.'' @ ''3'' @ ''.'' @ ''2'' @ ''.'' @ ''1'' = ''4.3.2.1''" by simp
  have e2: "''d'' @ ''.'' @ [] @ ''.'' @ ''b'' @ ''.'' @ ''a'' = ''d..b.a''" by simp
  show ?thesis
    unfolding e1 [symmetric] e2 [symmetric] by (intro conjI h1 h2 r1 r2)
qed

text \<open>C2. When the split of the input on the dot gives a number of segments other than
  four, \<open>reverse_ip\<close> returns exactly \<open>Invalid IP format: \<close> followed by the input, and
  logs nothing. The empty string is such an input: its split is the one empty
  segment.\<close>

theorem reverse_ip_invalid_format:
  "length (py_split (CHR ''.'') s) \<noteq> 4 \<Longrightarrow>
   reverse_ip (Some s) = (Inr (''Invalid IP format: '' @ s), [])"
  by (simp add: reverse_ip_Some)

theorem reverse_ip_invalid_format_witness:
  "length (py_split (CHR ''.'') []) \<noteq> 4 \<and>
   reverse_ip (Some []) = (Inr ''Invalid IP format: '', []) \<and>
   length (py_split (CHR ''.'') ''::1'') \<noteq> 4 \<and>
   reverse_ip (Some ''::1'') = (Inr ''Invalid IP format: ::1'', []) \<and>
   length (py_split (CHR ''.'') ''1.2.3.4.5'') \<noteq> 4 \<and>
   reverse_ip (Some ''1.2.3.4.5'') = (Inr ''Invalid IP format: 1.2.3.4.5'', [])"
proof -
  have h1: "length (py_split (CHR ''.'') []) \<noteq> 4" by simp
  have h2: "length (py_split (CHR ''.'') ''::1'') \<noteq> 4" by simp
  have h3: "length (py_split (CHR ''.'') ''1.2.3.4.5'') \<noteq> 4" by simp
  show ?thesis
    using h1 h2 h3 reverse_ip_invalid_format [OF h1] reverse_ip_invalid_format [OF h2]
      reverse_ip_invalid_format [OF h3]
    by simp
qed

text \<open>C3. Round trip: when \<open>x\<close> has exactly four dot-separated segments,
  \<open>reverse_ip\<close> returns a string \<open>y\<close> on \<open>x\<close>, and returns \<open>x\<close> on \<open>y\<close>.\<close>

theorem reverse_ip_round_trip:
  assumes "length (py_split (CHR ''.'') x) = 4"
  shows "\<exists>y. fst (reverse_ip (Some x)) = Inr y \<and> fst (reverse_ip (Some y)) = Inr x"
proof -
  obtain a b c d where abcd: "py_split (CHR ''.'') x = [a, b, c, d]"
    using length_four [OF assms] by blast
  define y where "y = py_join ''.'' [d, c, b, a]"
  have free: "\<And>w. w \<in> set [d, c, b, a] \<Longrightarrow> CHR ''.'' \<notin> set w"
    using py_split_sep_free [of _ "CHR ''.''" x] abcd by auto
  have "py_split (CHR ''.'') (py_join [CHR ''.''] [d, c, b, a]) = [d, c, b, a]"
    by (rule py_split_join) (use free in auto)
  then have ysplit: "py_split (CHR ''.'') y = [d, c, b, a]" by (simp add: y_def)
  have "py_join ''.'' [a, b, c, d] = x"
    using py_join_split [of "CHR ''.''" x] abcd by simp
  then have "fst (reverse_ip (Some y)) = Inr x"
    using ysplit by (simp add: reverse_ip_Some)
  moreover have "fst (reverse_ip (Some x)) = Inr y"
    using abcd by (simp add: reverse_ip_Some y_def)
  ultimately show ?thesis by blast
qed

theorem reverse_ip_round_trip_witness:
  "length (py_split (CHR ''.'') ''192.168.0.1'') = 4 \<and>
   fst (reverse_ip (Some ''192.168.0.1'')) = Inr ''1.0.168.192'' \<and>
   fst (reverse_ip (Some ''1.0.168.192'')) = Inr ''192.168.0.1''"
proof -
  have h: "length (py_split (CHR ''.'') ''192.168.0.1'') = 4" by simp
  obtain y where "fst (reverse_ip (Some ''192.168.0.1'')) = Inr y"
    and "fst (reverse_ip (Some y)) = Inr ''192.168.0.1''"
    using reverse_ip_round_trip [OF h] by blast
  moreover have "fst (reverse_ip (Some ''192.168.0.1'')) = Inr ''1.0.168.192''"
    by (simp add: reverse_ip_Some)
  ultimately show ?thesis using h by simp
qed

text \<open>C8. Totality: on every input, a string or \<open>None\<close>, \<open>reverse_ip\<close> returns a string
  and raises nothing; and whenever the \<open>try\<close> block raises, the result is
  \<open>Error processing IP: \<close> followed by the input as the f-string renders it.\<close>

theorem reverse_ip_total:
  "(\<exists>r lg. reverse_ip x = (Inr r, lg)) \<and>
   (\<forall>e. reverse_ip_try x = Inl e \<longrightarrow>
        fst (reverse_ip x) = Inr (''Error processing IP: '' @ py_format x))"
  by (cases x) (simp_all add: reverse_ip_def reverse_ip_try_def Let_def)

theorem reverse_ip_total_witness:
  "reverse_ip_try None = Inl (AttributeError NoneType_has_no_split) \<and>
   fst (reverse_ip None) = Inr ''Error processing IP: None'' \<and>
   (\<exists>r lg. reverse_ip (Some ''not an address'') = (Inr r, lg))"
proof -
  have h: "reverse_ip_try None = Inl (AttributeError NoneType_has_no_split)"
    by (simp add: reverse_ip_try_def)
  show ?thesis
    using h reverse_ip_total [of None] reverse_ip_total [of "Some ''not an address''"]
    by simp
qed

section \<open>Properties of get_client_ip\<close>

text \<open>Indexing the result of a split at 0 never raises, and the element found there is
  the part of the string before its first separator.\<close>

lemma py_getitem_split_0: "py_getitem (py_split sep s) 0 = Inr (hd (py_split sep s))"
  using py_split_not_Nil [of sep s]
  by (cases "py_split sep s") (simp_all add: py_getitem_def)

lemma hd_py_split: "hd (py_split sep s) = takeWhile (\<lambda>c. c \<noteq> sep) s"
proof (induction s)
  case Nil
  then show ?case by simp
next
  case (Cons c cs)
  then show ?case
    using py_split_not_Nil [of sep cs] by (cases "py_split sep cs") auto
qed

text \<open>\<open>strip\<close> takes whitespace, and only whitespace, off both ends: the string is the
  stripped string between two runs of whitespace, and the stripped string, unless it is
  empty, neither begins nor ends with whitespace.\<close>

lemma rev_dropWhile_takeWhile:
  "rev (dropWhile P (rev m)) @ rev (takeWhile P (rev m)) = m"
proof -
  have "rev (dropWhile P (rev m)) @ rev (takeWhile P (rev m)) =
          rev (takeWhile P (rev m) @ dropWhile P (rev m))"
    by (simp only: rev_append)
  also have "\<dots> = rev (rev m)" by (simp only: takeWhile_dropWhile_id)
  also have "\<dots> = m" by simp
  finally show ?thesis .
qed

lemma py_strip_decomp:
  "\<exists>l r. s = l @ py_strip s @ r \<and> list_all py_isspace l \<and> list_all py_isspace r"
proof -
  define l where "l = takeWhile py_isspace s"
  define m where "m = dropWhile py_isspace s"
  define r where "r = rev (takeWhile py_isspace (rev m))"
  have "s = l @ m" by (simp add: l_def m_def)
  moreover have "m = py_strip s @ r"
    unfolding py_strip_def r_def m_def [symmetric] by (rule rev_dropWhile_takeWhile [symmetric])
  moreover have "list_all py_isspace l"
    unfolding l_def list_all_iff by (auto dest: set_takeWhileD)
  moreover have "list_all py_isspace r"
    unfolding r_def list_all_iff by (auto dest: set_takeWhileD)
  ultimately show ?thesis by blast
qed

lemma py_strip_ends:
  assumes "py_strip s \<noteq> []"
  shows "\<not> py_isspace (hd (py_strip s))" and "\<not> py_isspace (last (py_strip s))"
proof -
  define m where "m = dropWhile py_isspace s"
  have strip: "py_strip s = rev (dropWhile py_isspace (rev m))" by (simp add: py_strip_def m_def)
  with assms have ne: "dropWhile py_isspace (rev m) \<noteq> []" by simp
  then show "\<not> py_isspace (last (py_strip s))"
    unfolding strip by (simp add: last_rev hd_dropWhile)
  from ne have "m \<noteq> []" by auto
  then have "\<not> py_isspace (hd m)" unfolding m_def by (rule hd_dropWhile)
  moreover have "hd (py_strip s) = hd m"
  proof -
    have "m = py_strip s @ rev (takeWhile py_isspace (rev m))"
      unfolding strip by (rule rev_dropWhile_takeWhile [symmetric])
    then have "hd m = hd (py_strip s @ rev (takeWhile py_isspace (rev m)))" by simp
    with assms show ?thesis by simp
  qed
  ultimately show "\<not> py_isspace (hd (py_strip s))" by simp
qed

text \<open>The loop passes over every header that is absent or empty, and returns at the
  first one that has a non-empty value.\<close>

lemma loop_skip:
  "\<forall>h\<in>set pre. headers req h = None \<or> headers req h = Some [] \<Longrightarrow>
   get_client_ip_loop req (pre @ rest) = get_client_ip_loop req rest"
  by (induction pre) auto

lemma loop_hit:
  assumes "headers req h = Some v" and "v \<noteq> []"
  shows "get_client_ip_loop req (h # post) =
           Some (Inr (Some (if CHR '','' \<in> set v then py_strip (hd (py_split (CHR '','') v))
                            else v)),
                 [(INFO, ''Found IP in '' @ h @ '': '' @
                         (if CHR '','' \<in> set v then py_strip (hd (py_split (CHR '','') v))
                          else v))])"
  using assms by (simp add: py_getitem_split_0 Let_def)

lemma get_client_ip_first_present:
  assumes "headers_to_check = pre @ h # post"
    and "\<forall>h'\<in>set pre. headers req h' = None \<or> headers req h' = Some []"
    and "headers req h = Some v" and "v \<noteq> []"
  shows "fst (get_client_ip req) =
           Inr (Some (if CHR '','' \<in> set v then py_strip (hd (py_split (CHR '','') v))
                      else v))"
proof -
  have "get_client_ip_loop req headers_to_check = get_client_ip_loop req (h # post)"
    unfolding assms(1) using assms(2) by (rule loop_skip)
  then show ?thesis
    unfolding get_client_ip_def by (simp only: loop_hit [OF assms(3,4)] option.case fst_conv)
qed

lemma get_client_ip_fallback:
  assumes "\<forall>h\<in>set headers_to_check. headers req h = None \<or> headers req h = Some []"
  shows "get_client_ip req =
           (Inr (remote_addr req), [(INFO, ''Using remote_addr: '' @ py_format (remote_addr req))])"
proof -
  have "get_client_ip_loop req (headers_to_check @ []) = get_client_ip_loop req []"
    using assms by (rule loop_skip)
  then show ?thesis by (simp add: get_client_ip_def Let_def)
qed

text \<open>Neither the loop nor the function raises.\<close>

lemma loop_no_raise:
  "get_client_ip_loop req hs = Some r \<Longrightarrow> \<exists>ip lg. r = (Inr (Some ip), lg)"
  by (induction hs) (auto simp: py_getitem_split_0 Let_def split: option.splits if_splits)

lemma get_client_ip_no_raise: "\<exists>ip lg. get_client_ip req = (Inr ip, lg)"
proof (cases "get_client_ip_loop req headers_to_check")
  case None
  then show ?thesis by (simp add: get_client_ip_def Let_def)
next
  case (Some r)
  then show ?thesis using loop_no_raise [OF Some] by (auto simp: get_client_ip_def)
qed

text \<open>C5. Header priority. The candidate list is X-Forwarded-For, X-Real-IP, X-Forwarded,
  X-Cluster-Client-IP, CF-Connecting-IP, in this order. When \<open>h\<close> is the first header of
  the list that the request carries with a non-empty value \<open>v\<close> (every header before it
  in the list is absent or empty), the result is taken from \<open>v\<close> alone, whatever the
  later headers hold: it is \<open>v\<close> itself when \<open>v\<close> has no comma, and the trimmed first
  element of \<open>v\<close> when it has one. In particular every request that carries
  X-Forwarded-For: 9.9.9.9 and X-Real-IP: 1.1.1.1 resolves to 9.9.9.9.\<close>

theorem header_priority:
  "headers_to_check =
     [''X-Forwarded-For'', ''X-Real-IP'', ''X-Forwarded'', ''X-Cluster-Client-IP'',
      ''CF-Connecting-IP''] \<and>
   (\<forall>pre h post v.
      headers_to_check = pre @ h # post \<longrightarrow>
      (\<forall>h'\<in>set pre. headers req h' = None \<or> headers req h' = Some []) \<longrightarrow>
      headers req h = Some v \<longrightarrow> v \<noteq> [] \<longrightarrow>
      fst (get_client_ip req) =
        Inr (Some (if CHR '','' \<in> set v then py_strip (hd (py_split (CHR '','') v))
                   else v))) \<and>
   (headers req ''X-Forwarded-For'' = Some ''9.9.9.9'' \<longrightarrow>
    headers req ''X-Real-IP'' = Some ''1.1.1.1'' \<longrightarrow>
    fst (get_client_ip req) = Inr (Some ''9.9.9.9''))"
proof (intro conjI allI impI)
  show "headers_to_check =
     [''X-Forwarded-For'', ''X-Real-IP'', ''X-Forwarded'', ''X-Cluster-Client-IP'',
      ''CF-Connecting-IP'']"
    by (rule headers_to_check_def)
next
  fix pre h post v
  assume "headers_to_check = pre @ h # post"
    and "\<forall>h'\<in>set pre. headers req h' = None \<or> headers req h' = Some []"
    and "headers req h = Some v" and "v \<noteq> []"
  then show "fst (get_client_ip req) =
        Inr (Some (if CHR '','' \<in> set v then py_strip (hd (py_split (CHR '','') v))
                   else v))"
    by (rule get_client_ip_first_present)
next
  assume xff: "headers req ''X-Forwarded-For'' = Some ''9.9.9.9''"
  have dec: "headers_to_check = [] @ ''X-Forwarded-For'' # tl headers_to_check"
    by (simp add: headers_to_check_def)
  have "fst (get_client_ip req) =
          Inr (Some (if CHR '','' \<in> set ''9.9.9.9''
                     then py_strip (hd (py_split (CHR '','') ''9.9.9.9'')) else ''9.9.9.9''))"
    by (rule get_client_ip_first_present [OF dec _ xff]) simp_all
  then show "fst (get_client_ip req) = Inr (Some ''9.9.9.9'')" by simp
qed

theorem header_priority_witness:
  "fst (get_client_ip
          \<lparr>headers = [''X-Forwarded-For'' \<mapsto> ''9.9.9.9'', ''X-Real-IP'' \<mapsto> ''1.1.1.1''],
           remote_addr = Some ''10.0.0.7'', http_method = ''GET'', path = ''/''\<rparr>)
     = Inr (Some ''9.9.9.9'') \<and>
   fst (get_client_ip
          \<lparr>headers = [''X-Forwarded-For'' \<mapsto> [], ''X-Real-IP'' \<mapsto> ''1.1.1.1'',
                      ''CF-Connecting-IP'' \<mapsto> ''7.7.7.7''],
           remote_addr = Some ''10.0.0.7'', http_method = ''GET'', path = ''/''\<rparr>)
     = Inr (Some ''1.1.1.1'')"
proof
  let ?r1 = "\<lparr>headers = [''X-Forwarded-For'' \<mapsto> ''9.9.9.9'', ''X-Real-IP'' \<mapsto> ''1.1.1.1''],
           remote_addr = Some ''10.0.0.7'', http_method = ''GET'', path = ''/''\<rparr>"
  have a: "headers ?r1 ''X-Forwarded-For'' = Some ''9.9.9.9''" by simp
  have b: "headers ?r1 ''X-Real-IP'' = Some ''1.1.1.1''" by simp
  show "fst (get_client_ip ?r1) = Inr (Some ''9.9.9.9'')"
    using header_priority [of ?r1, THEN conjunct2, THEN conjunct2] a b by blast
next
  let ?r2 = "\<lparr>headers = [''X-Forwarded-For'' \<mapsto> [], ''X-Real-IP'' \<mapsto> ''1.1.1.1'',
                      ''CF-Connecting-IP'' \<mapsto> ''7.7.7.7''],
           remote_addr = Some ''10.0.0.7'', http_method = ''GET'', path = ''/''\<rparr>"
  have dec: "headers_to_check =
               [''X-Forwarded-For''] @ ''X-Real-IP'' #
               [''X-Forwarded'', ''X-Cluster-Client-IP'', ''CF-Connecting-IP'']"
    by (simp add: headers_to_check_def)
  have skip: "\<forall>h'\<in>set [''X-Forwarded-For'']. headers ?r2 h' = None \<or> headers ?r2 h' = Some []"
    by simp
  have hit: "headers ?r2 ''X-Real-IP'' = Some ''1.1.1.1''" by simp
  have ne: "''1.1.1.1'' \<noteq> []" by simp
  have "fst (get_client_ip ?r2) =
          Inr (Some (if CHR '','' \<in> set ''1.1.1.1''
                     then py_strip (hd (py_split (CHR '','') ''1.1.1.1'')) else ''1.1.1.1''))"
    using header_priority [of ?r2, THEN conjunct2, THEN conjunct1] dec skip hit ne by blast
  then show "fst (get_client_ip ?r2) = Inr (Some ''1.1.1.1'')" by simp
qed

text \<open>C6. Comma handling. When the first header with a non-empty value holds a value with
  a comma in it, the result is the part of the value before its first comma, with the
  whitespace at both ends removed. The value \<open>203.0.113.5, 70.41.3.18\<close> of X-Forwarded-For
  resolves to \<open>203.0.113.5\<close>.\<close>

theorem comma_first_element:
  assumes "headers_to_check = pre @ h # post"
    and "\<forall>h'\<in>set pre. headers req h' = None \<or> headers req h' = Some []"
    and "headers req h = Some v"
    and "CHR '','' \<in> set v"
  shows "fst (get_client_ip req) = Inr (Some (py_strip (takeWhile (\<lambda>c. c \<noteq> CHR '','') v)))"
proof -
  from assms(4) have "v \<noteq> []" by auto
  from get_client_ip_first_present [OF assms(1,2,3) this] assms(4)
  show ?thesis by (simp add: hd_py_split)
qed

theorem comma_first_element_witness:
  "fst (get_client_ip
          \<lparr>headers = [''X-Forwarded-For'' \<mapsto> ''203.0.113.5, 70.41.3.18''],
           remote_addr = Some ''10.0.0.7'', http_method = ''GET'', path = ''/''\<rparr>)
     = Inr (Some ''203.0.113.5'') \<and>
   fst (get_client_ip
          \<lparr>headers = [''X-Real-IP'' \<mapsto> ''  198.51.100.7 ,10.0.0.1''],
           remote_addr = Some ''10.0.0.7'', http_method = ''GET'', path = ''/''\<rparr>)
     = Inr (Some ''198.51.100.7'')"
proof
  let ?r1 = "\<lparr>headers = [''X-Forwarded-For'' \<mapsto> ''203.0.113.5, 70.41.3.18''],
           remote_addr = Some ''10.0.0.7'', http_method = ''GET'', path = ''/''\<rparr>"
  have dec: "headers_to_check = [] @ ''X-Forwarded-For'' # tl headers_to_check"
    by (simp add: headers_to_check_def)
  have skip: "\<forall>h'\<in>set []. headers ?r1 h' = None \<or> headers ?r1 h' = Some []" by simp
  have hit: "headers ?r1 ''X-Forwarded-For'' = Some ''203.0.113.5, 70.41.3.18''" by simp
  have comma: "CHR '','' \<in> set ''203.0.113.5, 70.41.3.18''" by simp
  have "py_strip (takeWhile (\<lambda>c. c \<noteq> CHR '','') ''203.0.113.5, 70.41.3.18'') = ''203.0.113.5''"
    by (simp add: py_strip_def py_isspace_def)
  then show "fst (get_client_ip ?r1) = Inr (Some ''203.0.113.5'')"
    using comma_first_element [OF dec skip hit comma] by simp
next
  let ?r2 = "\<lparr>headers = [''X-Real-IP'' \<mapsto> ''  198.51.100.7 ,10.0.0.1''],
           remote_addr = Some ''10.0.0.7'', http_method = ''GET'', path = ''/''\<rparr>"
  have dec: "headers_to_check =
               [''X-Forwarded-For''] @ ''X-Real-IP'' #
               [''X-Forwarded'', ''X-Cluster-Client-IP'', ''CF-Connecting-IP'']"
    by (simp add: headers_to_check_def)
  have skip: "\<forall>h'\<in>set [''X-Forwarded-For'']. headers ?r2 h' = None \<or> headers ?r2 h' = Some []"
    by simp
  have hit: "headers ?r2 ''X-Real-IP'' = Some ''  198.51.100.7 ,10.0.0.1''" by simp
  have comma: "CHR '','' \<in> set ''  198.51.100.7 ,10.0.0.1''" by simp
  have "py_strip (takeWhile (\<lambda>c. c \<noteq> CHR '','') ''  198.51.100.7 ,10.0.0.1'') = ''198.51.100.7''"
    by (simp add: py_strip_def py_isspace_def)
  then show "fst (get_client_ip ?r2) = Inr (Some ''198.51.100.7'')"
    using comma_first_element [OF dec skip hit comma] by simp
qed

text \<open>C10. When the first header with a non-empty value holds a value without a comma,
  the result is that value as it stands, whitespace included: the value \<open> 1.2.3.4 \<close>
  is returned with the space on either side.\<close>

theorem no_comma_verbatim:
  assumes "headers_to_check = pre @ h # post"
    and "\<forall>h'\<in>set pre. headers req h' = None \<or> headers req h' = Some []"
    and "headers req h = Some v" and "v \<noteq> []"
    and "CHR '','' \<notin> set v"
  shows "fst (get_client_ip req) = Inr (Some v)"
  using get_client_ip_first_present [OF assms(1,2,3,4)] assms(5) by simp

theorem no_comma_verbatim_witness:
  "fst (get_client_ip
          \<lparr>headers = [''X-Forwarded-For'' \<mapsto> '' 1.2.3.4 ''],
           remote_addr = Some ''10.0.0.7'', http_method = ''GET'', path = ''/''\<rparr>)
     = Inr (Some '' 1.2.3.4 '')"
proof -
  let ?r = "\<lparr>headers = [''X-Forwarded-For'' \<mapsto> '' 1.2.3.4 ''],
           remote_addr = Some ''10.0.0.7'', http_method = ''GET'', path = ''/''\<rparr>"
  have dec: "headers_to_check = [] @ ''X-Forwarded-For'' # tl headers_to_check"
    by (simp add: headers_to_check_def)
  have skip: "\<forall>h'\<in>set []. headers ?r h' = None \<or> headers ?r h' = Some []" by simp
  have hit: "headers ?r ''X-Forwarded-For'' = Some '' 1.2.3.4 ''" by simp
  have ne: "'' 1.2.3.4 '' \<noteq> []" by simp
  have nc: "CHR '','' \<notin> set '' 1.2.3.4 ''" by simp
  show ?thesis by (rule no_comma_verbatim [OF dec skip hit ne nc])
qed

text \<open>C7. Fallback. When each of the five candidate headers is absent or empty, the result
  is \<open>request.remote_addr\<close> as it stands: nothing is trimmed or split.\<close>

theorem fallback_remote_addr:
  assumes "\<forall>h\<in>set headers_to_check. headers req h = None \<or> headers req h = Some []"
  shows "fst (get_client_ip req) = Inr (remote_addr req)"
  by (simp add: get_client_ip_fallback [OF assms])

theorem fallback_remote_addr_witness:
  "fst (get_client_ip
          \<lparr>headers = Map.empty, remote_addr = Some ''5.6.7.8'', http_method = ''POST'',
           path = ''/foo/bar''\<rparr>)
     = Inr (Some ''5.6.7.8'') \<and>
   fst (get_client_ip
          \<lparr>headers = [''X-Forwarded-For'' \<mapsto> [], ''User-Agent'' \<mapsto> ''curl''],
           remote_addr = Some '' 5.6.7.8, 9 '', http_method = ''GET'', path = ''/''\<rparr>)
     = Inr (Some '' 5.6.7.8, 9 '')"
proof
  let ?r1 = "\<lparr>headers = Map.empty, remote_addr = Some ''5.6.7.8'', http_method = ''POST'',
           path = ''/foo/bar''\<rparr>"
  have none: "\<forall>h\<in>set headers_to_check. headers ?r1 h = None \<or> headers ?r1 h = Some []"
    by simp
  show "fst (get_client_ip ?r1) = Inr (Some ''5.6.7.8'')"
    using fallback_remote_addr [OF none] by simp
next
  let ?r2 = "\<lparr>headers = [''X-Forwarded-For'' \<mapsto> [], ''User-Agent'' \<mapsto> ''curl''],
           remote_addr = Some '' 5.6.7.8, 9 '', http_method = ''GET'', path = ''/''\<rparr>"
  have none: "\<forall>h\<in>set headers_to_check. headers ?r2 h = None \<or> headers ?r2 h = Some []"
    by (simp add: headers_to_check_def)
  show "fst (get_client_ip ?r2) = Inr (Some '' 5.6.7.8, 9 '')"
    using fallback_remote_addr [OF none] by simp
qed

section \<open>Properties of the handlers\<close>

lemma reverse_ip_no_raise: "\<exists>r lg. reverse_ip x = (Inr r, lg)"
  by (cases x) (simp_all add: reverse_ip_def reverse_ip_try_def Let_def)

text \<open>C4, as the code has it. When no candidate header has a non-empty value and
  \<open>remote_addr\<close> is \<open>None\<close>, \<open>get_client_ip\<close> returns \<open>None\<close>. In \<open>reverse_ip\<close> the call of
  \<open>split\<close> on \<open>None\<close> raises inside the \<open>try\<close> block, the \<open>except\<close> clause catches it, and
  the result is \<open>Error processing IP: None\<close>: the message of the internal fault, and the
  handler answers 200 with \<open>original_ip\<close> null and that message as \<open>reversed_ip\<close>.\<close>

theorem missing_client_ip_error_message:
  assumes "\<forall>h\<in>set headers_to_check. headers req h = None \<or> headers req h = Some []"
    and "remote_addr req = None"
  shows "fst (get_client_ip req) = Inr None \<and>
         fst (reverse_ip None) = Inr ''Error processing IP: None'' \<and>
         fst (handle_request req) =
           Inr (JObject [(''original_ip'', JNull),
                         (''reversed_ip'', JString ''Error processing IP: None''),
                         (''method'', JString (http_method req)),
                         (''path'', JString (path req)),
                         (''user_agent'', JString (user_agent req))], 200)"
proof -
  have g: "get_client_ip req = (Inr None, [(INFO, ''Using remote_addr: None'')])"
    using get_client_ip_fallback [OF assms(1)] assms(2) by simp
  have r: "reverse_ip None =
             (Inr ''Error processing IP: None'',
              [(ERROR, ''Error reversing IP None: '' @ NoneType_has_no_split)])"
    by (simp add: reverse_ip_def reverse_ip_try_def)
  show ?thesis
    by (simp add: handle_request_def g r jsonify_def)
qed

theorem missing_client_ip_error_message_witness:
  "fst (get_client_ip
          \<lparr>headers = [''User-Agent'' \<mapsto> ''curl''], remote_addr = None, http_method = ''GET'',
           path = ''/''\<rparr>)
     = Inr None \<and>
   fst (handle_request
          \<lparr>headers = [''User-Agent'' \<mapsto> ''curl''], remote_addr = None, http_method = ''GET'',
           path = ''/''\<rparr>)
     = Inr (JObject [(''original_ip'', JNull),
                     (''reversed_ip'', JString ''Error processing IP: None''),
                     (''method'', JString ''GET''),
                     (''path'', JString ''/''),
                     (''user_agent'', JString ''curl'')], 200)"
proof -
  let ?r = "\<lparr>headers = [''User-Agent'' \<mapsto> ''curl''], remote_addr = None, http_method = ''GET'',
           path = ''/''\<rparr>"
  have none: "\<forall>h\<in>set headers_to_check. headers ?r h = None \<or> headers ?r h = Some []"
    by (simp add: headers_to_check_def)
  have ra: "remote_addr ?r = None" by simp
  have ua: "user_agent ?r = ''curl''" by (simp add: user_agent_def)
  show ?thesis
    using missing_client_ip_error_message [OF none ra] ua by simp
qed

text \<open>C4, as the claim states it, fails: on the request without headers and without a peer
  address the resolver returns \<open>None\<close>, and the reversal of \<open>None\<close> is not the
  malformed-format message \<open>Invalid IP format: None\<close>.\<close>

theorem missing_client_ip_counterexample:
  "fst (get_client_ip
          \<lparr>headers = Map.empty, remote_addr = None, http_method = ''GET'', path = ''/''\<rparr>)
     = Inr None \<and>
   fst (reverse_ip None) = Inr ''Error processing IP: None'' \<and>
   fst (reverse_ip None) \<noteq> Inr (''Invalid IP format: '' @ py_format None)"
  by (simp add: get_client_ip_def headers_to_check_def reverse_ip_def reverse_ip_try_def)

text \<open>C9. Each of the three handlers returns a body with status 200 on every request,
  whatever its method, path and headers; none of them raises.\<close>

theorem handlers_status_200:
  "(\<exists>body lg. handle_request req = (Inr (body, 200), lg)) \<and>
   (\<exists>body lg. health_check = (Inr (body, 200), lg)) \<and>
   (\<exists>body lg. catch_all req p = (Inr (body, 200), lg))"
proof -
  obtain ip lg where g: "get_client_ip req = (Inr ip, lg)"
    using get_client_ip_no_raise by blast
  obtain r lg' where r: "reverse_ip ip = (Inr r, lg')"
    using reverse_ip_no_raise by blast
  have "\<exists>body lg. handle_request req = (Inr (body, 200), lg)"
    by (simp add: handle_request_def g r)
  moreover have "\<exists>body lg. health_check = (Inr (body, 200), lg)"
    unfolding health_check_def by simp
  moreover have "\<exists>body lg. catch_all req p = (Inr (body, 200), lg)"
    by (simp add: catch_all_def g r)
  ultimately show ?thesis by blast
qed

theorem handlers_status_200_witness:
  "handle_request
     \<lparr>headers = [''X-Forwarded-For'' \<mapsto> ''1.2.3.4''], remote_addr = Some ''10.0.0.7'',
      http_method = ''GET'', path = ''/''\<rparr>
     = (Inr (JObject [(''original_ip'', JString ''1.2.3.4''),
                      (''reversed_ip'', JString ''4.3.2.1''),
                      (''method'', JString ''GET''),
                      (''path'', JString ''/''),
                      (''user_agent'', JString ''Unknown'')], 200),
        [(INFO, ''Found IP in X-Forwarded-For: 1.2.3.4''),
         (INFO, ''Request from 1.2.3.4 -> Reversed: 4.3.2.1'')]) \<and>
   (\<exists>body lg. health_check = (Inr (body, 200), lg)) \<and>
   (\<exists>body lg.
      catch_all
        \<lparr>headers = [''X-Forwarded-For'' \<mapsto> ''1.2.3.4''], remote_addr = Some ''10.0.0.7'',
         http_method = ''GET'', path = ''/''\<rparr> ''foo/bar''
      = (Inr (body, 200), lg))"
proof -
  let ?r = "\<lparr>headers = [''X-Forwarded-For'' \<mapsto> ''1.2.3.4''], remote_addr = Some ''10.0.0.7'',
      http_method = ''GET'', path = ''/''\<rparr>"
  have g: "get_client_ip ?r = (Inr (Some ''1.2.3.4''), [(INFO, ''Found IP in X-Forwarded-For: 1.2.3.4'')])"
    by (simp add: get_client_ip_def headers_to_check_def)
  have r: "reverse_ip (Some ''1.2.3.4'') = (Inr ''4.3.2.1'', [])"
    by (simp add: reverse_ip_Some)
  have h: "handle_request ?r
     = (Inr (JObject [(''original_ip'', JString ''1.2.3.4''),
                      (''reversed_ip'', JString ''4.3.2.1''),
                      (''method'', JString ''GET''),
                      (''path'', JString ''/''),
                      (''user_agent'', JString ''Unknown'')], 200),
        [(INFO, ''Found IP in X-Forwarded-For: 1.2.3.4''),
         (INFO, ''Request from 1.2.3.4 -> Reversed: 4.3.2.1'')])"
    by (simp add: handle_request_def g r jsonify_def user_agent_def)
  from h handlers_status_200 [of ?r "''foo/bar''"] show ?thesis by blast
qed

end
